theory Spec2Isabelle
  imports Main "HOL-Library.Word"
begin

section \<open>Values\<close>

text \<open>
  The Python sources keep attributes that are either unset (\<open>None\<close>) or hold a value:
  such an attribute is an \<open>option\<close>. Handles and address types are Python integers
  (\<open>int\<close>), a service UUID is the number it stands for, a name is a string.

  An address reaches the code as a buffer the caller owns (MicroPython hands the scan
  handler a view of a buffer it reuses). A \<open>buffer\<close> is therefore either an immutable
  \<open>bytes\<close> object, which carries its content, or a view of a cell of the caller's memory,
  whose content is whatever the memory holds when it is read. \<open>bytes(x)\<close> reads the
  content once and builds an immutable object from it.
\<close>

type_synonym bytes = "8 word list"
type_synonym uuid = nat
type_synonym memory = "nat \<Rightarrow> bytes"

datatype buffer = Bytes bytes | View nat

fun contents :: "memory \<Rightarrow> buffer \<Rightarrow> bytes" where
  "contents mem (Bytes bs) = bs"
| "contents mem (View a) = mem a"

definition py_bytes :: "memory \<Rightarrow> buffer \<Rightarrow> buffer" where
  "py_bytes mem b = Bytes (contents mem b)"

text \<open>Exceptions, as values: those of the BLE stack's primitives and those of the interpreter.\<close>

datatype exn =
    OSError int
  | TypeError
  | ValueError
  | ModuleNotFoundError string
  | AttributeError string

section \<open>Discovery modes and connection states (\<open>_connection_context.py\<close>)\<close>

definition CONNECTING_NONE :: int where "CONNECTING_NONE = 0"
definition CONNECTING_UART :: int where "CONNECTING_UART = 1"
definition CONNECTING_LEGO :: int where "CONNECTING_LEGO = 2"

definition STATE_IDLE :: int where "STATE_IDLE = 0"
definition STATE_CONNECTING :: int where "STATE_CONNECTING = 1"
definition STATE_DISCOVERING :: int where "STATE_DISCOVERING = 2"
definition STATE_CONNECTED :: int where "STATE_CONNECTED = 3"
definition STATE_DISCONNECTING :: int where "STATE_DISCONNECTING = 4"

section \<open>Imports by absolute name\<close>

text \<open>
  The source files are the modules of one package, \<open>btbricks\<close>: each imports its siblings
  relatively (\<open>from ._connection_context import ...\<close>) and the orchestrator's module as
  \<open>btbricks.bt\<close>. A relative import of a sibling resolves inside the package and gives
  the constants above. An import by absolute name, as
  \<open>__import__(name, fromlist=[""])\<close> does it, finds a module only under one of the
  package's names; any other name raises \<open>ModuleNotFoundError\<close> (it carries the name that
  was asked for). Reading an attribute the module does not define raises
  \<open>AttributeError\<close>.
\<close>

definition package_modules :: "string list" where
  "package_modules =
     [''btbricks'', ''btbricks._callback_registry'', ''btbricks._connection_context'',
      ''btbricks._discovery_manager'', ''btbricks._lego_manager'', ''btbricks._uart_manager'',
      ''btbricks.bt'']"

definition connection_context_module :: "string \<rightharpoonup> int" where
  "connection_context_module =
     [''CONNECTING_NONE'' \<mapsto> CONNECTING_NONE, ''CONNECTING_UART'' \<mapsto> CONNECTING_UART,
      ''CONNECTING_LEGO'' \<mapsto> CONNECTING_LEGO]"

definition import_attr :: "string \<Rightarrow> string \<Rightarrow> exn + int" where
  "import_attr modname attr =
     (if modname \<notin> set package_modules then Inl (ModuleNotFoundError modname)
      else if modname = ''btbricks._connection_context''
      then (case connection_context_module attr of
              None \<Rightarrow> Inl (AttributeError attr)
            | Some v \<Rightarrow> Inr v)
      else Inl (AttributeError attr))"

section \<open>CallbackRegistry (\<open>_callback_registry.py\<close>)\<close>

text \<open>
  The four dictionaries are maps from a key to the stored callback. A key is any Python
  value (type \<open>'k\<close>); a stored callback is whatever the caller passed, a callable of type
  \<open>'c\<close> or \<open>None\<close>. The source's attribute \<open>_write_callbacks\<close> is the field
  \<open>cr_write_callbacks\<close>, and so on (an Isabelle name cannot start with an underscore).
\<close>

record ('k, 'c) CallbackRegistry =
  cr_write_callbacks :: "'k \<rightharpoonup> 'c option"
  cr_write_done_callbacks :: "'k \<rightharpoonup> 'c option"
  cr_notify_callbacks :: "'k \<rightharpoonup> 'c option"
  cr_disconn_callbacks :: "'k \<rightharpoonup> 'c option"
  cr_central_conn_callback :: "'c option"
  cr_central_disconn_callback :: "'c option"
  cr_scan_result_callback :: "'c option"
  cr_scan_done_callback :: "'c option"
  cr_char_result_callback :: "'c option"

definition CallbackRegistry_init :: "('k, 'c) CallbackRegistry" where
  "CallbackRegistry_init =
     \<lparr> cr_write_callbacks = Map.empty, cr_write_done_callbacks = Map.empty,
       cr_notify_callbacks = Map.empty, cr_disconn_callbacks = Map.empty,
       cr_central_conn_callback = None, cr_central_disconn_callback = None,
       cr_scan_result_callback = None, cr_scan_done_callback = None,
       cr_char_result_callback = None \<rparr>"

definition CallbackRegistry_on_write ::
  "('k, 'c) CallbackRegistry \<Rightarrow> 'k \<Rightarrow> 'c option \<Rightarrow> ('k, 'c) CallbackRegistry" where
  "CallbackRegistry_on_write self value_handle callback =
     self\<lparr>cr_write_callbacks := (cr_write_callbacks self)(value_handle \<mapsto> callback)\<rparr>"

definition CallbackRegistry_on_write_done ::
  "('k, 'c) CallbackRegistry \<Rightarrow> 'k \<Rightarrow> 'c option \<Rightarrow> ('k, 'c) CallbackRegistry" where
  "CallbackRegistry_on_write_done self conn_handle callback =
     self\<lparr>cr_write_done_callbacks := (cr_write_done_callbacks self)(conn_handle \<mapsto> callback)\<rparr>"

definition CallbackRegistry_on_notify ::
  "('k, 'c) CallbackRegistry \<Rightarrow> 'k \<Rightarrow> 'c option \<Rightarrow> ('k, 'c) CallbackRegistry" where
  "CallbackRegistry_on_notify self conn_handle callback =
     self\<lparr>cr_notify_callbacks := (cr_notify_callbacks self)(conn_handle \<mapsto> callback)\<rparr>"

definition CallbackRegistry_on_disconnect ::
  "('k, 'c) CallbackRegistry \<Rightarrow> 'k \<Rightarrow> 'c option \<Rightarrow> ('k, 'c) CallbackRegistry" where
  "CallbackRegistry_on_disconnect self conn_handle callback =
     self\<lparr>cr_disconn_callbacks := (cr_disconn_callbacks self)(conn_handle \<mapsto> callback)\<rparr>"

text \<open>\<open>dict.get(key)\<close>: \<open>None\<close> for a missing key, the stored value otherwise.\<close>

definition dict_get :: "('k \<rightharpoonup> 'c option) \<Rightarrow> 'k \<Rightarrow> 'c option" where
  "dict_get d k = (case d k of None \<Rightarrow> None | Some v \<Rightarrow> v)"

definition CallbackRegistry_get_write_callback ::
  "('k, 'c) CallbackRegistry \<Rightarrow> 'k \<Rightarrow> 'c option" where
  "CallbackRegistry_get_write_callback self value_handle =
     dict_get (cr_write_callbacks self) value_handle"

definition CallbackRegistry_get_write_done_callback ::
  "('k, 'c) CallbackRegistry \<Rightarrow> 'k \<Rightarrow> 'c option" where
  "CallbackRegistry_get_write_done_callback self conn_handle =
     dict_get (cr_write_done_callbacks self) conn_handle"

definition CallbackRegistry_get_notify_callback ::
  "('k, 'c) CallbackRegistry \<Rightarrow> 'k \<Rightarrow> 'c option" where
  "CallbackRegistry_get_notify_callback self conn_handle =
     dict_get (cr_notify_callbacks self) conn_handle"

definition CallbackRegistry_get_disconnect_callback ::
  "('k, 'c) CallbackRegistry \<Rightarrow> 'k \<Rightarrow> 'c option" where
  "CallbackRegistry_get_disconnect_callback self conn_handle =
     dict_get (cr_disconn_callbacks self) conn_handle"

text \<open>\<open>dict.pop(key, None)\<close> removes the key when it is there and never raises.\<close>

definition CallbackRegistry_clear_connection ::
  "('k, 'c) CallbackRegistry \<Rightarrow> 'k \<Rightarrow> ('k, 'c) CallbackRegistry" where
  "CallbackRegistry_clear_connection self conn_handle =
     self\<lparr>cr_write_done_callbacks := (cr_write_done_callbacks self)(conn_handle := None),
          cr_notify_callbacks := (cr_notify_callbacks self)(conn_handle := None),
          cr_disconn_callbacks := (cr_disconn_callbacks self)(conn_handle := None)\<rparr>"

text \<open>\<open>key in dict\<close>: the key has an entry (whatever the stored value is).\<close>

definition CallbackRegistry_has_callbacks :: "('k, 'c) CallbackRegistry \<Rightarrow> 'k \<Rightarrow> bool" where
  "CallbackRegistry_has_callbacks self conn_handle =
     (cr_write_done_callbacks self conn_handle \<noteq> None
      \<or> cr_notify_callbacks self conn_handle \<noteq> None
      \<or> cr_disconn_callbacks self conn_handle \<noteq> None)"

section \<open>ConnectionContext (\<open>_connection_context.py\<close>)\<close>

text \<open>
  The body of \<open>class ConnectionContext\<close> ends after the five state constants. The
  functions that follow in the file, \<open>__init__\<close> and \<open>reset\<close> to \<open>clear_connection\<close>, are
  written at module level and take the context as \<open>self\<close>; they keep their names here,
  and \<open>self.STATE_IDLE\<close> is the class constant. \<open>ConnectionContext_class\<close> lists what the
  class itself binds. A call \<open>obj.m()\<close> finds \<open>m\<close> only when the class of \<open>obj\<close> binds
  it, and raises \<open>AttributeError\<close> otherwise.
\<close>

definition ConnectionContext_class :: "string list" where
  "ConnectionContext_class =
     [''STATE_IDLE'', ''STATE_CONNECTING'', ''STATE_DISCOVERING'', ''STATE_CONNECTED'',
      ''STATE_DISCONNECTING'']"

definition bound_method :: "string list \<Rightarrow> string \<Rightarrow> exn option" where
  "bound_method cls m = (if m \<in> set cls then None else Some (AttributeError m))"

record ConnectionContext =
  conn_handle :: "int option"
  addr_type :: "int option"
  addr :: "buffer option"
  start_handle :: "int option"
  end_handle :: "int option"
  uart_rx_handle :: "int option"
  uart_tx_handle :: "int option"
  lego_value_handle :: "int option"
  adv_type :: "int option"
  name :: "string option"
  services :: "uuid list option"
  state :: int

definition ConnectionContext_init :: ConnectionContext where
  "ConnectionContext_init =
     \<lparr> conn_handle = None, addr_type = None, addr = None, start_handle = None,
       end_handle = None, uart_rx_handle = None, uart_tx_handle = None,
       lego_value_handle = None, adv_type = None, name = None, services = None,
       state = STATE_IDLE \<rparr>"

definition reset :: "ConnectionContext \<Rightarrow> ConnectionContext" where
  "reset self =
     self\<lparr>conn_handle := None, addr_type := None, addr := None, start_handle := None,
          end_handle := None, uart_rx_handle := None, uart_tx_handle := None,
          lego_value_handle := None, adv_type := None, name := None, services := None,
          state := STATE_IDLE\<rparr>"

definition set_connection_info ::
  "memory \<Rightarrow> ConnectionContext \<Rightarrow> int option \<Rightarrow> int option \<Rightarrow> buffer option \<Rightarrow> ConnectionContext" where
  "set_connection_info mem self conn_handle' addr_type' addr' =
     (let self1 = self\<lparr>conn_handle := conn_handle'\<rparr>;
          self2 = (case addr_type' of None \<Rightarrow> self1 | Some t \<Rightarrow> self1\<lparr>addr_type := Some t\<rparr>)
      in (case addr' of None \<Rightarrow> self2 | Some a \<Rightarrow> self2\<lparr>addr := Some (py_bytes mem a)\<rparr>))"

definition set_discovery_handles :: "ConnectionContext \<Rightarrow> int option \<Rightarrow> int option \<Rightarrow> ConnectionContext" where
  "set_discovery_handles self start_handle' end_handle' =
     self\<lparr>start_handle := start_handle', end_handle := end_handle'\<rparr>"

definition set_uart_handles :: "ConnectionContext \<Rightarrow> int option \<Rightarrow> int option \<Rightarrow> ConnectionContext" where
  "set_uart_handles self rx_handle tx_handle =
     self\<lparr>uart_rx_handle := rx_handle, uart_tx_handle := tx_handle\<rparr>"

definition set_lego_handle :: "ConnectionContext \<Rightarrow> int option \<Rightarrow> ConnectionContext" where
  "set_lego_handle self value_handle = self\<lparr>lego_value_handle := value_handle\<rparr>"

text \<open>\<open>services if services else []\<close>: \<open>None\<close> and the empty list are both falsy.\<close>

definition set_discovery_data ::
  "ConnectionContext \<Rightarrow> int option \<Rightarrow> string option \<Rightarrow> uuid list option \<Rightarrow> ConnectionContext" where
  "set_discovery_data self adv_type' name' services' =
     self\<lparr>adv_type := adv_type', name := name',
          services := Some (case services' of None \<Rightarrow> [] | Some [] \<Rightarrow> [] | Some (s # ss) \<Rightarrow> s # ss)\<rparr>"

definition is_uart_ready :: "ConnectionContext \<Rightarrow> bool" where
  "is_uart_ready self = (uart_rx_handle self \<noteq> None \<and> uart_tx_handle self \<noteq> None)"

definition is_lego_ready :: "ConnectionContext \<Rightarrow> bool" where
  "is_lego_ready self = (lego_value_handle self \<noteq> None)"

definition is_connected :: "ConnectionContext \<Rightarrow> bool" where
  "is_connected self = (conn_handle self \<noteq> None \<and> state self = STATE_CONNECTED)"

definition has_discovery_handles :: "ConnectionContext \<Rightarrow> bool" where
  "has_discovery_handles self = (start_handle self \<noteq> None \<and> end_handle self \<noteq> None)"

definition clear_connection :: "ConnectionContext \<Rightarrow> ConnectionContext" where
  "clear_connection self = self\<lparr>conn_handle := None, state := STATE_IDLE\<rparr>"

section \<open>DiscoveryManager (\<open>_discovery_manager.py\<close>)\<close>

text \<open>
  The attribute \<open>_addr_type\<close> is the field \<open>dm_addr_type\<close>, and so on; \<open>mode\<close> keeps
  its name. A user callback is an opaque callable: calling it is recorded as a
  \<open>call\<close>, in the order the calls are made, next to the value the method returns
  (a callback is taken to return, and not to reach back into the manager).
\<close>

record 'c DiscoveryManager =
  dm_search_name :: "string option"
  dm_search_uuid :: "uuid option"
  mode :: int
  dm_addr_type :: "int option"
  dm_addr :: "buffer option"
  dm_adv_type :: "int option"
  dm_name :: "string option"
  dm_services :: "uuid list option"
  dm_scan_result_callback :: "'c option"
  dm_scan_done_callback :: "'c option"

datatype 'c call =
    Call_scan_result 'c int buffer string "uuid list"
  | Call_scan_done 'c bool

definition DiscoveryManager_init :: "'c DiscoveryManager" where
  "DiscoveryManager_init =
     \<lparr> dm_search_name = None, dm_search_uuid = None, mode = CONNECTING_NONE,
       dm_addr_type = None, dm_addr = None, dm_adv_type = None, dm_name = None,
       dm_services = None, dm_scan_result_callback = None, dm_scan_done_callback = None \<rparr>"

definition start_uart_discovery ::
  "'c DiscoveryManager \<Rightarrow> string \<Rightarrow> 'c option \<Rightarrow> 'c option \<Rightarrow> 'c DiscoveryManager" where
  "start_uart_discovery self name' callback_result callback_done =
     self\<lparr>dm_search_name := Some name', mode := CONNECTING_UART, dm_addr_type := None,
          dm_addr := None, dm_scan_result_callback := callback_result,
          dm_scan_done_callback := callback_done\<rparr>"

definition start_lego_discovery ::
  "'c DiscoveryManager \<Rightarrow> 'c option \<Rightarrow> 'c option \<Rightarrow> 'c DiscoveryManager" where
  "start_lego_discovery self callback_result callback_done =
     self\<lparr>mode := CONNECTING_LEGO, dm_addr_type := None, dm_addr := None,
          dm_adv_type := None, dm_name := None, dm_services := None,
          dm_scan_result_callback := callback_result,
          dm_scan_done_callback := callback_done\<rparr>"

definition stop_discovery :: "'c DiscoveryManager \<Rightarrow> 'c DiscoveryManager" where
  "stop_discovery self =
     self\<lparr>mode := CONNECTING_NONE, dm_scan_result_callback := None,
          dm_scan_done_callback := None\<rparr>"

text \<open>
  \<open>on_scan_result\<close>: two \<open>if\<close> statements in sequence (not \<open>elif\<close>), then the
  callback. Each \<open>if\<close> compares the mode with a constant it reads through
  \<open>__import__("btbricks.btbricks._connection_context", fromlist=[""])\<close>, so each can
  raise before its branch is looked at. The result is the returned \<open>matched\<close> or the
  exception, the manager as the call leaves it, and the calls made.
\<close>

definition on_scan_result ::
  "memory \<Rightarrow> 'c DiscoveryManager \<Rightarrow> int \<Rightarrow> buffer \<Rightarrow> string \<Rightarrow> uuid list \<Rightarrow> uuid \<Rightarrow> uuid
     \<Rightarrow> (exn + bool) \<times> 'c DiscoveryManager \<times> 'c call list" where
  "on_scan_result mem self addr_type' addr' name' services' uart_uuid lego_uuid =
     (case import_attr ''btbricks.btbricks._connection_context'' ''CONNECTING_UART'' of
        Inl e \<Rightarrow> (Inl e, self, [])
      | Inr uart_mode \<Rightarrow>
          (let (matched1, self1) =
                 (if mode self = uart_mode
                     \<and> Some name' = dm_search_name self \<and> uart_uuid \<in> set services'
                  then (True, self\<lparr>dm_addr_type := Some addr_type',
                                    dm_addr := Some (py_bytes mem addr')\<rparr>)
                  else (False, self))
           in case import_attr ''btbricks.btbricks._connection_context'' ''CONNECTING_LEGO'' of
                Inl e \<Rightarrow> (Inl e, self1, [])
              | Inr lego_mode \<Rightarrow>
                  (let (matched2, self2) =
                         (if mode self1 = lego_mode \<and> lego_uuid \<in> set services'
                          then (True, self1\<lparr>dm_addr_type := Some addr_type',
                                             dm_addr := Some (py_bytes mem addr'),
                                             dm_adv_type := None,
                                             dm_name := Some name',
                                             dm_services := Some services'\<rparr>)
                          else (matched1, self1));
                       calls =
                         (case dm_scan_result_callback self2 of
                            None \<Rightarrow> []
                          | Some cb \<Rightarrow> [Call_scan_result cb addr_type' addr' name' services'])
                   in (Inr matched2, self2, calls))))"

text \<open>
  \<open>on_scan_done\<close> reads the two constants through the relative import, which resolves.
\<close>

definition on_scan_done :: "'c DiscoveryManager \<Rightarrow> (bool \<times> string option) \<times> 'c call list" where
  "on_scan_done self =
     (let (found, info) =
            (if mode self = CONNECTING_UART
             then (let found = (dm_addr_type self \<noteq> None)
                   in (found, if found then dm_search_name self else None))
             else if mode self = CONNECTING_LEGO
             then (let found = (dm_addr_type self \<noteq> None)
                   in (found, if found then dm_name self else None))
             else (False, None));
          calls =
            (case dm_scan_done_callback self of
               None \<Rightarrow> []
             | Some cb \<Rightarrow> [Call_scan_done cb found])
      in ((found, info), calls))"

definition get_discovered_address :: "'c DiscoveryManager \<Rightarrow> int option \<times> buffer option" where
  "get_discovered_address self = (dm_addr_type self, dm_addr self)"

definition is_discovering :: "'c DiscoveryManager \<Rightarrow> bool" where
  "is_discovering self = (mode self \<noteq> CONNECTING_NONE)"

section \<open>The orchestrator and the BLE stack, as the managers see them\<close>

text \<open>
  The managers work on an orchestrator object (\<open>ble_handler\<close>) that owns the discovery
  manager, the connection context and the callback registry, the BLE stack \<open>_ble\<close> and
  the attribute \<open>mtu\<close>. The orchestrator's own code and the stack are outside these
  sources, so what they do is a parameter, the \<open>environment\<close>:
  \<^item> the events the orchestrator handles while the caller is inside \<open>scan()\<close> or asleep
    in \<open>sleep_ms\<close> leave a new discovery manager, context, registry and stack state
    (an \<open>effect\<close>); the state \<open>'b\<close> of the stack is arbitrary, so an effect may depend on
    everything that happened before;
  \<^item> \<open>scan()\<close> and \<open>print_log()\<close> may raise;
  \<^item> each primitive of the stack returns the stack's new state and either a value or
    the exception it raised;
  \<^item> \<open>TARGET_MTU\<close> is the constant imported from \<open>btbricks.bt\<close>.

  The managers call the operations of the context as methods of the orchestrator's
  \<open>_connection\<close> object. Which names the class of that object binds is the field
  \<open>connection_class\<close>: for an instance of the source's \<open>ConnectionContext\<close> it is
  \<open>ConnectionContext_class\<close>. A name that is bound stands for the function of that name
  in \<open>_connection_context.py\<close>. The attribute \<open>mtu\<close> is written by \<open>_negotiate_mtu\<close> only.
\<close>

record ('b, 'c) BLEHandler =
  discovery :: "'c DiscoveryManager"
  connection :: ConnectionContext
  connection_class :: "string list"
  callbacks :: "(int option, 'c) CallbackRegistry"
  ble :: 'b
  mtu :: int

type_synonym ('b, 'c) effect =
  "('b, 'c) BLEHandler
     \<Rightarrow> 'c DiscoveryManager \<times> ConnectionContext \<times> (int option, 'c) CallbackRegistry \<times> 'b"

record ('b, 'c) environment =
  TARGET_MTU :: int
  scan_effect :: "('b, 'c) effect"
  scan_raises :: "('b, 'c) BLEHandler \<Rightarrow> exn option"
  print_log_raises :: "('b, 'c) BLEHandler \<Rightarrow> exn option"
  sleep_effect :: "int \<Rightarrow> ('b, 'c) effect"
  ble_config_set_mtu :: "int \<Rightarrow> 'b \<Rightarrow> 'b \<times> exn option"
  ble_gattc_exchange_mtu :: "int option \<Rightarrow> 'b \<Rightarrow> 'b \<times> exn option"
  ble_config_get_mtu :: "'b \<Rightarrow> 'b \<times> (exn + int)"
  ble_gap_disconnect :: "int \<Rightarrow> 'b \<Rightarrow> 'b \<times> exn option"

definition deliver :: "('b, 'c) effect \<Rightarrow> ('b, 'c) BLEHandler \<Rightarrow> ('b, 'c) BLEHandler" where
  "deliver f h =
     (case f h of (d, c, r, b) \<Rightarrow> h\<lparr>discovery := d, connection := c, callbacks := r, ble := b\<rparr>)"

text \<open>What a manager prints, and its calls to \<open>scan()\<close> and \<open>sleep_ms\<close>, in order.\<close>

datatype event =
    Scan
  | Print_log
  | Print_uart_connecting string int int
  | Print_lego_searching int int
  | Print_lego_connected "string option"
  | Sleep_ms int

text \<open>
  \<open>try: body except: pass\<close>: whatever the body raised is dropped; the state the body
  left stays.
\<close>

definition try_except_pass :: "'s \<times> exn option \<Rightarrow> 's \<times> exn option" where
  "try_except_pass r = (fst r, None)"

text \<open>Truthiness of a value that is an integer or \<open>None\<close>.\<close>

definition truthy :: "int option \<Rightarrow> bool" where
  "truthy v = (case v of None \<Rightarrow> False | Some n \<Rightarrow> n \<noteq> 0)"

section \<open>The wait loop of \<open>connect\<close>\<close>

text \<open>
  \<open>for i in range(timeout)\<close>: one tick per index, in order. A tick calls \<open>print_log()\<close>
  in debug mode (which may raise and so end the loop and the method) or prints its
  progress line, sleeps one second (the orchestrator handles events meanwhile), then
  reads the discovery mode and leaves the loop when it is \<open>CONNECTING_NONE\<close>. The result
  is the exception that ended the loop, if any, the handler and the events.
\<close>

fun poll ::
  "('b, 'c) environment \<Rightarrow> bool \<Rightarrow> (nat \<Rightarrow> event) \<Rightarrow> nat list \<Rightarrow> ('b, 'c) BLEHandler
     \<Rightarrow> exn option \<times> ('b, 'c) BLEHandler \<times> event list" where
  "poll env debug line [] h = (None, h, [])"
| "poll env debug line (i # rest) h =
     (case (if debug then print_log_raises env h else None) of
        Some e \<Rightarrow> (Some e, h, [Print_log])
      | None \<Rightarrow>
          (let shown = (if debug then Print_log else line i);
               h1 = deliver (sleep_effect env 1000) h
           in if mode (discovery h1) = CONNECTING_NONE
              then (None, h1, [shown, Sleep_ms 1000])
              else (case poll env debug line rest h1 of
                      (x, h2, evs) \<Rightarrow> (x, h2, shown # Sleep_ms 1000 # evs))))"

text \<open>\<open>range(n)\<close>: empty when \<open>n\<close> is not positive.\<close>

definition py_range :: "int \<Rightarrow> nat list" where
  "py_range n = [0 ..< nat n]"

section \<open>UARTConnectionManager (\<open>_uart_manager.py\<close>)\<close>

record ('b, 'c) ConnectionManager =
  ble_handler :: "('b, 'c) BLEHandler"
  is_connecting :: bool

definition UART_progress :: "string \<Rightarrow> int \<Rightarrow> nat \<Rightarrow> event" where
  "UART_progress name' timeout i = Print_uart_connecting name' (int i + 1) timeout"

text \<open>
  The start of \<open>connect\<close>: discovery started, \<open>_connection.reset()\<close>, \<open>scan()\<close>. The
  result is the exception that ended it, if any, the handler and the events.
\<close>

definition UART_scanning ::
  "('b, 'c) environment \<Rightarrow> ('b, 'c) ConnectionManager \<Rightarrow> string
     \<Rightarrow> exn option \<times> ('b, 'c) BLEHandler \<times> event list" where
  "UART_scanning env self name' =
     (let h = ble_handler self;
          h1 = h\<lparr>discovery := start_uart_discovery (discovery h) name' None None\<rparr>
      in case bound_method (connection_class h1) ''reset'' of
           Some e \<Rightarrow> (Some e, h1, [])
         | None \<Rightarrow>
             (let h2 = h1\<lparr>connection := reset (connection h1)\<rparr>
              in (scan_raises env h2, deliver (scan_effect env) h2, [Scan])))"

text \<open>\<open>connect\<close> up to the end of the wait loop.\<close>

definition UART_waited ::
  "('b, 'c) environment \<Rightarrow> ('b, 'c) ConnectionManager \<Rightarrow> string \<Rightarrow> int \<Rightarrow> bool
     \<Rightarrow> exn option \<times> ('b, 'c) BLEHandler \<times> event list" where
  "UART_waited env self name' timeout debug =
     (case UART_scanning env self name' of
        (Some e, h, evs) \<Rightarrow> (Some e, h, evs)
      | (None, h, evs) \<Rightarrow>
          (case poll env debug (UART_progress name' timeout) (py_range timeout) h of
             (x, h4, evs') \<Rightarrow> (x, h4, evs @ evs')))"

text \<open>The body of the \<open>try\<close> of \<open>_negotiate_mtu\<close>: it stops at the first exception.\<close>

definition negotiate_mtu_body ::
  "('b, 'c) environment \<Rightarrow> int option \<Rightarrow> ('b, 'c) BLEHandler
     \<Rightarrow> (('b, 'c) BLEHandler \<times> event list) \<times> exn option" where
  "negotiate_mtu_body env conn h =
     (case ble_config_set_mtu env (TARGET_MTU env) (ble h) of
        (b1, Some e) \<Rightarrow> ((h\<lparr>ble := b1\<rparr>, []), Some e)
      | (b1, None) \<Rightarrow>
          (case ble_gattc_exchange_mtu env conn b1 of
             (b2, Some e) \<Rightarrow> ((h\<lparr>ble := b2\<rparr>, []), Some e)
           | (b2, None) \<Rightarrow>
               (let h3 = deliver (sleep_effect env 60) (h\<lparr>ble := b2\<rparr>)
                in case ble_config_get_mtu env (ble h3) of
                     (b4, Inl e) \<Rightarrow> ((h3\<lparr>ble := b4\<rparr>, [Sleep_ms 60]), Some e)
                   | (b4, Inr v) \<Rightarrow> ((h3\<lparr>ble := b4, mtu := v - 4\<rparr>, [Sleep_ms 60]), None))))"

definition negotiate_mtu ::
  "('b, 'c) environment \<Rightarrow> ('b, 'c) BLEHandler
     \<Rightarrow> (('b, 'c) BLEHandler \<times> event list) \<times> exn option" where
  "negotiate_mtu env h =
     (let conn = conn_handle (connection h)
      in try_except_pass (negotiate_mtu_body env conn h))"

text \<open>The three \<open>if on_...:\<close> registrations of the success path, in the source's order.\<close>

definition UART_register ::
  "('b, 'c) BLEHandler \<Rightarrow> 'c option \<Rightarrow> 'c option \<Rightarrow> 'c option \<Rightarrow> ('b, 'c) BLEHandler" where
  "UART_register h on_notify on_disconnect on_write_done =
     (let h1 = (case on_notify of
                  None \<Rightarrow> h
                | Some cb \<Rightarrow> h\<lparr>callbacks := CallbackRegistry_on_notify (callbacks h)
                                               (conn_handle (connection h)) (Some cb)\<rparr>);
          h2 = (case on_disconnect of
                  None \<Rightarrow> h1
                | Some cb \<Rightarrow> h1\<lparr>callbacks := CallbackRegistry_on_disconnect (callbacks h1)
                                                (conn_handle (connection h1)) (Some cb)\<rparr>)
      in (case on_write_done of
            None \<Rightarrow> h2
          | Some cb \<Rightarrow> h2\<lparr>callbacks := CallbackRegistry_on_write_done (callbacks h2)
                                          (conn_handle (connection h2)) (Some cb)\<rparr>))"

text \<open>
  \<open>connect\<close> up to the assignment of \<open>result\<close>: the result (or the exception that left
  the method), the handler and the events so far. After the wait the method calls
  \<open>_connection.is_uart_ready()\<close>.
\<close>

definition UART_attempt ::
  "('b, 'c) environment \<Rightarrow> ('b, 'c) ConnectionManager \<Rightarrow> string \<Rightarrow> 'c option \<Rightarrow> 'c option
     \<Rightarrow> 'c option \<Rightarrow> int \<Rightarrow> bool
     \<Rightarrow> (exn + int option \<times> int option \<times> int option) \<times> ('b, 'c) BLEHandler \<times> event list" where
  "UART_attempt env self name' on_disconnect on_notify on_write_done timeout debug =
     (case UART_waited env self name' timeout debug of
        (Some e, h4, evs) \<Rightarrow> (Inl e, h4, evs)
      | (None, h4, evs) \<Rightarrow>
          (case bound_method (connection_class h4) ''is_uart_ready'' of
             Some e \<Rightarrow> (Inl e, h4, evs)
           | None \<Rightarrow>
               if is_uart_ready (connection h4)
               then (case negotiate_mtu env (UART_register h4 on_notify on_disconnect on_write_done) of
                       ((h6, evs'), Some e) \<Rightarrow> (Inl e, h6, evs @ evs')
                     | ((h6, evs'), None) \<Rightarrow>
                         (Inr (conn_handle (connection h6), uart_rx_handle (connection h6),
                               uart_tx_handle (connection h6)),
                          h6, evs @ evs'))
               else (Inr (None, None, None), h4, evs)))"

text \<open>
  \<open>connect\<close>: the flag is set first; discovery is stopped and the flag cleared after
  \<open>result\<close> is assigned. The source has no \<open>try\<close> around the steps before, so an
  exception leaves the method with the flag and the discovery session as they are.
\<close>

definition UART_connect ::
  "('b, 'c) environment \<Rightarrow> ('b, 'c) ConnectionManager \<Rightarrow> string \<Rightarrow> 'c option \<Rightarrow> 'c option
     \<Rightarrow> 'c option \<Rightarrow> int \<Rightarrow> bool
     \<Rightarrow> (exn + int option \<times> int option \<times> int option) \<times> ('b, 'c) ConnectionManager \<times> event list" where
  "UART_connect env self name' on_disconnect on_notify on_write_done timeout debug =
     (let self1 = self\<lparr>is_connecting := True\<rparr>
      in case UART_attempt env self1 name' on_disconnect on_notify on_write_done timeout debug of
           (Inl e, h, evs) \<Rightarrow> (Inl e, self1\<lparr>ble_handler := h\<rparr>, evs)
         | (Inr result, h, evs) \<Rightarrow>
             (Inr result,
              self1\<lparr>ble_handler := h\<lparr>discovery := stop_discovery (discovery h)\<rparr>,
                    is_connecting := False\<rparr>,
              evs))"

text \<open>
  \<open>disconnect\<close>: the teardown inside \<open>try ... except: pass\<close>, then the registry's
  \<open>clear_connection(conn_handle)\<close>, then \<open>_connection.clear_connection()\<close>.
\<close>

definition UART_disconnect ::
  "('b, 'c) environment \<Rightarrow> ('b, 'c) ConnectionManager \<Rightarrow> int option
     \<Rightarrow> ('b, 'c) ConnectionManager \<times> exn option" where
  "UART_disconnect env self conn_handle' =
     (case conn_handle' of
        None \<Rightarrow> (self, None)
      | Some c \<Rightarrow>
          (case try_except_pass (ble_gap_disconnect env c (ble (ble_handler self))) of
             (b, Some e) \<Rightarrow> (self\<lparr>ble_handler := (ble_handler self)\<lparr>ble := b\<rparr>\<rparr>, Some e)
           | (b, None) \<Rightarrow>
               (let h1 = (ble_handler self)\<lparr>ble := b\<rparr>;
                    h2 = h1\<lparr>callbacks := CallbackRegistry_clear_connection (callbacks h1) (Some c)\<rparr>
                in case bound_method (connection_class h2) ''clear_connection'' of
                     Some e \<Rightarrow> (self\<lparr>ble_handler := h2\<rparr>, Some e)
                   | None \<Rightarrow>
                       (self\<lparr>ble_handler := h2\<lparr>connection := clear_connection (connection h2)\<rparr>\<rparr>,
                        None))))"

section \<open>LEGOConnectionManager (\<open>_lego_manager.py\<close>)\<close>

definition LEGO_progress :: "int \<Rightarrow> nat \<Rightarrow> event" where
  "LEGO_progress timeout i = Print_lego_searching (int i + 1) timeout"

definition LEGO_scanning ::
  "('b, 'c) environment \<Rightarrow> ('b, 'c) ConnectionManager
     \<Rightarrow> exn option \<times> ('b, 'c) BLEHandler \<times> event list" where
  "LEGO_scanning env self =
     (let h = ble_handler self;
          h1 = h\<lparr>discovery := start_lego_discovery (discovery h) None None\<rparr>
      in case bound_method (connection_class h1) ''reset'' of
           Some e \<Rightarrow> (Some e, h1, [])
         | None \<Rightarrow>
             (let h2 = h1\<lparr>connection := reset (connection h1)\<rparr>
              in (scan_raises env h2, deliver (scan_effect env) h2, [Scan])))"

definition LEGO_waited ::
  "('b, 'c) environment \<Rightarrow> ('b, 'c) ConnectionManager \<Rightarrow> int \<Rightarrow> bool
     \<Rightarrow> exn option \<times> ('b, 'c) BLEHandler \<times> event list" where
  "LEGO_waited env self timeout debug =
     (case LEGO_scanning env self of
        (Some e, h, evs) \<Rightarrow> (Some e, h, evs)
      | (None, h, evs) \<Rightarrow>
          (case poll env debug (LEGO_progress timeout) (py_range timeout) h of
             (x, h4, evs') \<Rightarrow> (x, h4, evs @ evs')))"

text \<open>
  \<open>connect\<close>: after the wait, \<open>_connection.is_lego_ready()\<close> decides the result; then
  discovery is stopped, the flag cleared, and the name printed when the handle is truthy.
\<close>

definition LEGO_connect ::
  "('b, 'c) environment \<Rightarrow> ('b, 'c) ConnectionManager \<Rightarrow> int \<Rightarrow> bool
     \<Rightarrow> (exn + int option) \<times> ('b, 'c) ConnectionManager \<times> event list" where
  "LEGO_connect env self timeout debug =
     (let self1 = self\<lparr>is_connecting := True\<rparr>
      in case LEGO_waited env self1 timeout debug of
           (Some e, h4, evs) \<Rightarrow> (Inl e, self1\<lparr>ble_handler := h4\<rparr>, evs)
         | (None, h4, evs) \<Rightarrow>
             (case bound_method (connection_class h4) ''is_lego_ready'' of
                Some e \<Rightarrow> (Inl e, self1\<lparr>ble_handler := h4\<rparr>, evs)
              | None \<Rightarrow>
                  (let conn = (if is_lego_ready (connection h4)
                               then conn_handle (connection h4) else None);
                       h5 = h4\<lparr>discovery := stop_discovery (discovery h4)\<rparr>;
                       self2 = self1\<lparr>ble_handler := h5, is_connecting := False\<rparr>;
                       evs' = (if truthy conn
                               then [Print_lego_connected (name (connection h5))] else [])
                   in (Inr conn, self2, evs @ evs'))))"

definition LEGO_disconnect ::
  "('b, 'c) environment \<Rightarrow> ('b, 'c) ConnectionManager \<Rightarrow> int option
     \<Rightarrow> ('b, 'c) ConnectionManager \<times> exn option" where
  "LEGO_disconnect env self conn_handle' =
     (case conn_handle' of
        None \<Rightarrow> (self, None)
      | Some c \<Rightarrow>
          (case try_except_pass (ble_gap_disconnect env c (ble (ble_handler self))) of
             (b, Some e) \<Rightarrow> (self\<lparr>ble_handler := (ble_handler self)\<lparr>ble := b\<rparr>\<rparr>, Some e)
           | (b, None) \<Rightarrow>
               (let h1 = (ble_handler self)\<lparr>ble := b\<rparr>;
                    h2 = h1\<lparr>callbacks := CallbackRegistry_clear_connection (callbacks h1) (Some c)\<rparr>
                in case bound_method (connection_class h2) ''clear_connection'' of
                     Some e \<Rightarrow> (self\<lparr>ble_handler := h2\<rparr>, Some e)
                   | None \<Rightarrow>
                       (self\<lparr>ble_handler := h2\<lparr>connection := clear_connection (connection h2)\<rparr>\<rparr>,
                        None))))"

text \<open>\<open>get_hub_name\<close>: the name when it is truthy (set and not empty), else \<open>None\<close>.\<close>

definition get_hub_name :: "('b, 'c) ConnectionManager \<Rightarrow> int option \<Rightarrow> string option" where
  "get_hub_name self conn_handle' =
     (case name (connection (ble_handler self)) of
        None \<Rightarrow> None
      | Some n \<Rightarrow> if n \<noteq> [] then Some n else None)"

section \<open>Concrete values for the examples\<close>

definition example_uart_uuid :: uuid where "example_uart_uuid = 0x6E400001"
definition example_lego_uuid :: uuid where "example_lego_uuid = 0x1623"

text \<open>A caller's memory whose cell 0 holds the six address bytes of the scenarios.\<close>

definition scenario_memory :: memory where
  "scenario_memory = (\<lambda>_. [])(0 := [1, 2, 3, 4, 5, 6], 1 := [170, 170, 170, 170, 170, 170])"

definition robot_session :: "string DiscoveryManager" where
  "robot_session = start_uart_discovery DiscoveryManager_init ''robot'' None None"

definition hub_session :: "string DiscoveryManager" where
  "hub_session = start_lego_discovery DiscoveryManager_init None None"

definition registry_example :: "(int option, string) CallbackRegistry" where
  "registry_example =
     CallbackRegistry_on_write
       (CallbackRegistry_on_disconnect
          (CallbackRegistry_on_notify
             (CallbackRegistry_on_notify
                (CallbackRegistry_on_write_done CallbackRegistry_init (Some 1) (Some ''done''))
                (Some 1) (Some ''notify''))
             (Some 2) (Some ''other''))
          (Some 1) None)
       (Some 12) (Some ''written'')"

definition context_example :: ConnectionContext where
  "context_example =
     set_connection_info scenario_memory ConnectionContext_init (Some 7) (Some 1) (Some (View 0))"

text \<open>
  Environments. The stack's state counts the sleeps so far; \<open>scan()\<close> and \<open>print_log()\<close>
  return in all three. In \<open>quiet_env\<close> nothing is ever found and every primitive
  succeeds. In \<open>robot_env\<close> the orchestrator finishes a UART connection during the second
  sleep, and the MTU exchange and the link teardown raise. In \<open>hub42_env\<close> it finishes a
  hub connection during the first sleep, and the link teardown raises.
\<close>

definition quiet_env :: "(nat, string) environment" where
  "quiet_env =
     \<lparr> TARGET_MTU = 512,
       scan_effect = (\<lambda>h. (discovery h, connection h, callbacks h, ble h)),
       scan_raises = (\<lambda>h. None),
       print_log_raises = (\<lambda>h. None),
       sleep_effect = (\<lambda>ms h. (discovery h, connection h, callbacks h, Suc (ble h))),
       ble_config_set_mtu = (\<lambda>v b. (b, None)),
       ble_gattc_exchange_mtu = (\<lambda>c b. (b, None)),
       ble_config_get_mtu = (\<lambda>b. (b, Inr 185)),
       ble_gap_disconnect = (\<lambda>c b. (b, None)) \<rparr>"

definition robot_env :: "(nat, string) environment" where
  "robot_env =
     quiet_env
       \<lparr> sleep_effect :=
           (\<lambda>ms h.
              if ble h = 1
              then (stop_discovery (discovery h),
                    set_uart_handles
                      (set_connection_info scenario_memory (connection h) (Some 3) (Some 1)
                         (Some (View 0)))
                      (Some 12) (Some 14),
                    callbacks h, Suc (ble h))
              else (discovery h, connection h, callbacks h, Suc (ble h))),
         ble_gattc_exchange_mtu := (\<lambda>c b. (b, Some (OSError 22))),
         ble_gap_disconnect := (\<lambda>c b. (b, Some (OSError 128))) \<rparr>"

definition hub42_env :: "(nat, string) environment" where
  "hub42_env =
     quiet_env
       \<lparr> sleep_effect :=
           (\<lambda>ms h.
              if ble h = 0
              then (stop_discovery (discovery h),
                    set_discovery_data
                      (set_lego_handle
                         (set_connection_info scenario_memory (connection h) (Some 5) (Some 0)
                            (Some (View 1)))
                         (Some 14))
                      None (Some ''Hub42'') (Some [example_lego_uuid]),
                    callbacks h, Suc (ble h))
              else (discovery h, connection h, callbacks h, Suc (ble h))),
         ble_gap_disconnect := (\<lambda>c b. (b, Some (OSError 128))) \<rparr>"

text \<open>
  A class that binds the functions of \<open>_connection_context.py\<close> as its methods, as the
  docstrings of the file describe the context.
\<close>

definition class_with_methods :: "string list" where
  "class_with_methods =
     ConnectionContext_class @
     [''__init__'', ''reset'', ''set_connection_info'', ''set_discovery_handles'',
      ''set_uart_handles'', ''set_lego_handle'', ''set_discovery_data'', ''is_uart_ready'',
      ''is_lego_ready'', ''is_connected'', ''has_discovery_handles'', ''clear_connection'',
      ''__repr__'']"

text \<open>
  Two orchestrators at rest. The context of \<open>manager_example\<close> is an object of
  \<open>class_with_methods\<close>; the context of \<open>source_manager\<close> is an instance of the source's
  \<open>ConnectionContext\<close>. \<open>source_connected\<close> is \<open>source_manager\<close> with an established
  connection with handle 1 in its context.
\<close>

definition manager_example :: "(nat, string) ConnectionManager" where
  "manager_example =
     \<lparr> ble_handler =
         \<lparr> discovery = DiscoveryManager_init, connection = ConnectionContext_init,
           connection_class = class_with_methods,
           callbacks = registry_example, ble = 0, mtu = 20 \<rparr>,
       is_connecting = False \<rparr>"

definition source_manager :: "(nat, string) ConnectionManager" where
  "source_manager =
     \<lparr> ble_handler =
         \<lparr> discovery = DiscoveryManager_init, connection = ConnectionContext_init,
           connection_class = ConnectionContext_class,
           callbacks = registry_example, ble = 0, mtu = 20 \<rparr>,
       is_connecting = False \<rparr>"

definition source_connected :: "(nat, string) ConnectionManager" where
  "source_connected =
     source_manager
       \<lparr> ble_handler := (ble_handler source_manager)
           \<lparr> connection :=
               (set_connection_info scenario_memory ConnectionContext_init (Some 1) (Some 1)
                  (Some (View 0)))
               \<lparr> state := STATE_CONNECTED \<rparr> \<rparr> \<rparr>"

section \<open>The discovery manager\<close>

lemma import_of_nested_name:
  "import_attr ''btbricks.btbricks._connection_context'' attr
     = Inl (ModuleNotFoundError ''btbricks.btbricks._connection_context'')"
  by (simp add: import_attr_def package_modules_def)

text \<open>
  C1 says that in a UART session with search name \<open>S\<close>, \<open>on_scan_result\<close> returns true
  exactly when the advertised name is \<open>S\<close> and the UART service UUID is advertised, and
  then stores a copy of the address for \<open>get_discovered_address\<close>. The code does not do
  that: its first \<open>if\<close> reads \<open>CONNECTING_UART\<close> through
  \<open>__import__("btbricks.btbricks._connection_context", ...)\<close>, which names no module of
  the package, so every call raises \<open>ModuleNotFoundError\<close> with the manager unchanged and
  no callback called. In scenario A of the specification (a session for \<open>robot\<close>, a
  matching advertisement) the call raises and the discovered address stays
  \<open>(None, None)\<close>. The name the sibling methods import relatively,
  \<open>btbricks._connection_context\<close>, does give the constant.
\<close>

theorem on_scan_result_uart_raises:
  "on_scan_result mem self at a n svcs uart lego
     = (Inl (ModuleNotFoundError ''btbricks.btbricks._connection_context''), self, [])
   \<and> mode robot_session = CONNECTING_UART
   \<and> dm_search_name robot_session = Some ''robot''
   \<and> fst (on_scan_result scenario_memory robot_session 1 (View 0) ''robot''
            [example_uart_uuid] example_uart_uuid example_lego_uuid)
       = Inl (ModuleNotFoundError ''btbricks.btbricks._connection_context'')
   \<and> get_discovered_address
        (fst (snd (on_scan_result scenario_memory robot_session 1 (View 0) ''robot''
            [example_uart_uuid] example_uart_uuid example_lego_uuid)))
       = (None, None)
   \<and> import_attr ''btbricks._connection_context'' ''CONNECTING_UART'' = Inr CONNECTING_UART"
  by (simp add: on_scan_result_def import_of_nested_name robot_session_def
      start_uart_discovery_def DiscoveryManager_init_def get_discovered_address_def
      import_attr_def package_modules_def connection_context_module_def)

text \<open>
  C2 says that in a hub session \<open>on_scan_result\<close> returns true exactly when the hub
  service UUID is advertised, whatever the name, and then stores the address type, a
  copy of the address, the name and the services. The code does not do that: the
  import in the first \<open>if\<close> is evaluated in every mode, so the call raises
  \<open>ModuleNotFoundError\<close> before the hub branch is reached. In scenario C of the
  specification (a hub session, the hub's advertisement under the name \<open>AnyName\<close>) the
  call raises and leaves the session as it was, with no address, name or services
  stored. The name the sibling methods import relatively does give the constant.
\<close>

theorem on_scan_result_lego_raises:
  "mode hub_session = CONNECTING_LEGO
   \<and> fst (on_scan_result scenario_memory hub_session 0 (View 1) ''AnyName''
          [example_lego_uuid] example_uart_uuid example_lego_uuid)
     = Inl (ModuleNotFoundError ''btbricks.btbricks._connection_context'')
   \<and> fst (snd (on_scan_result scenario_memory hub_session 0 (View 1) ''AnyName''
          [example_lego_uuid] example_uart_uuid example_lego_uuid)) = hub_session
   \<and> dm_addr_type hub_session = None
   \<and> dm_addr hub_session = None
   \<and> dm_name hub_session = None
   \<and> dm_services hub_session = None
   \<and> import_attr ''btbricks._connection_context'' ''CONNECTING_LEGO'' = Inr CONNECTING_LEGO"
  by (simp add: on_scan_result_def import_of_nested_name hub_session_def
      start_lego_discovery_def DiscoveryManager_init_def
      import_attr_def package_modules_def connection_context_module_def)

text \<open>
  C10. With no session active (mode \<open>CONNECTING_NONE\<close>), \<open>on_scan_done\<close> returns
  \<open>(False, None)\<close>; a scan-done callback that is still installed is called all the same,
  once, with \<open>False\<close>.
\<close>

theorem on_scan_done_idle:
  assumes "mode self = CONNECTING_NONE"
  shows "fst (on_scan_done self) = (False, None)
       \<and> snd (on_scan_done self)
           = (case dm_scan_done_callback self of
                None \<Rightarrow> []
              | Some cb \<Rightarrow> [Call_scan_done cb False])"
  using assms
  by (simp add: on_scan_done_def CONNECTING_UART_def CONNECTING_LEGO_def CONNECTING_NONE_def
      split: option.splits)

text \<open>
  A session that found its device, whose mode was then set back to \<open>CONNECTING_NONE\<close>
  with the callback left in place.
\<close>

theorem on_scan_done_idle_witness:
  "on_scan_done
     ((start_uart_discovery DiscoveryManager_init ''robot'' None (Some ''done''))
        \<lparr>mode := CONNECTING_NONE, dm_addr_type := Some 1\<rparr>)
   = ((False, None), [Call_scan_done ''done'' False])"
  using on_scan_done_idle [of "(start_uart_discovery DiscoveryManager_init ''robot'' None (Some ''done''))
        \<lparr>mode := CONNECTING_NONE, dm_addr_type := Some 1\<rparr>"]
  by (simp add: start_uart_discovery_def DiscoveryManager_init_def prod_eq_iff)

section \<open>Frame properties of the registry and the context\<close>

text \<open>
  C4. After \<open>clear_connection(h)\<close> on the registry, the write-done, notify and disconnect
  entries of \<open>h\<close> are gone and \<open>has_callbacks(h)\<close> is false; the write callbacks (keyed
  by value handle), the entries of every other connection handle and the five single
  callbacks are as before.
\<close>

theorem clear_connection_registry_frame:
  "(let r' = CallbackRegistry_clear_connection r h in
      cr_write_done_callbacks r' h = None
    \<and> cr_notify_callbacks r' h = None
    \<and> cr_disconn_callbacks r' h = None
    \<and> \<not> CallbackRegistry_has_callbacks r' h
    \<and> cr_write_callbacks r' = cr_write_callbacks r
    \<and> (\<forall>k. k \<noteq> h \<longrightarrow>
          cr_write_done_callbacks r' k = cr_write_done_callbacks r k
        \<and> cr_notify_callbacks r' k = cr_notify_callbacks r k
        \<and> cr_disconn_callbacks r' k = cr_disconn_callbacks r k)
    \<and> cr_central_conn_callback r' = cr_central_conn_callback r
    \<and> cr_central_disconn_callback r' = cr_central_disconn_callback r
    \<and> cr_scan_result_callback r' = cr_scan_result_callback r
    \<and> cr_scan_done_callback r' = cr_scan_done_callback r
    \<and> cr_char_result_callback r' = cr_char_result_callback r)"
  by (simp add: CallbackRegistry_clear_connection_def CallbackRegistry_has_callbacks_def)

theorem clear_connection_registry_frame_witness:
  "CallbackRegistry_has_callbacks registry_example (Some 1)
   \<and> \<not> CallbackRegistry_has_callbacks
         (CallbackRegistry_clear_connection registry_example (Some 1)) (Some 1)
   \<and> CallbackRegistry_get_notify_callback
        (CallbackRegistry_clear_connection registry_example (Some 1)) (Some 2) = Some ''other''
   \<and> CallbackRegistry_get_write_callback
        (CallbackRegistry_clear_connection registry_example (Some 1)) (Some 12) = Some ''written''"
  using clear_connection_registry_frame [of registry_example "Some 1"]
  by (simp add: Let_def registry_example_def CallbackRegistry_init_def CallbackRegistry_on_write_def
      CallbackRegistry_on_disconnect_def CallbackRegistry_on_notify_def
      CallbackRegistry_on_write_done_def CallbackRegistry_has_callbacks_def
      CallbackRegistry_get_notify_callback_def CallbackRegistry_get_write_callback_def
      CallbackRegistry_clear_connection_def dict_get_def)

text \<open>
  C6. \<open>set_connection_info\<close> always stores the connection handle it is given. An absent
  address type leaves the stored address type as it was, an absent address leaves the
  stored address as it was; in particular the call with both absent changes neither.
  A given address is stored as an immutable copy of the bytes the caller's buffer held
  at the call: reading the stored address gives those bytes under every later memory.
\<close>

theorem set_connection_info_partial:
  "conn_handle (set_connection_info mem c conn at a) = conn
   \<and> (at = None \<longrightarrow> addr_type (set_connection_info mem c conn at a) = addr_type c)
   \<and> (a = None \<longrightarrow> addr (set_connection_info mem c conn at a) = addr c)
   \<and> addr_type (set_connection_info mem c conn None None) = addr_type c
   \<and> addr (set_connection_info mem c conn None None) = addr c
   \<and> (\<forall>b. a = Some b \<longrightarrow>
         addr (set_connection_info mem c conn at a) = Some (Bytes (contents mem b))
       \<and> (\<forall>mem'. map_option (contents mem') (addr (set_connection_info mem c conn at a))
                   = Some (contents mem b)))"
  by (simp add: set_connection_info_def py_bytes_def Let_def split: option.splits)

text \<open>
  A context that got its address from the caller's buffer, then a call without address:
  the address type and the bytes are still there, also after the buffer was overwritten.
\<close>

theorem set_connection_info_partial_witness:
  "addr_type (set_connection_info scenario_memory context_example (Some 8) None None) = Some 1
   \<and> map_option (contents (\<lambda>_. [0]))
       (addr (set_connection_info scenario_memory context_example (Some 8) None None))
       = Some [1, 2, 3, 4, 5, 6]
   \<and> conn_handle (set_connection_info scenario_memory context_example (Some 8) None None)
       = Some 8"
  using
    set_connection_info_partial [of scenario_memory context_example "Some 8" None None]
    set_connection_info_partial [of scenario_memory ConnectionContext_init "Some 7" "Some 1"
      "Some (View 0)"]
  by (simp add: context_example_def set_connection_info_def py_bytes_def
      ConnectionContext_init_def scenario_memory_def)

section \<open>Auxiliary facts\<close>

lemma negotiate_mtu_swallows: "snd (negotiate_mtu env h) = None"
  by (simp add: negotiate_mtu_def try_except_pass_def)

lemma negotiate_mtu_state:
  "fst (negotiate_mtu env h) = fst (negotiate_mtu_body env (conn_handle (connection h)) h)"
  by (simp add: negotiate_mtu_def try_except_pass_def)

lemma mtu_deliver: "mtu (deliver f h) = mtu h"
  by (simp add: deliver_def split: prod.splits)

lemma negotiate_mtu_body_failed_mtu:
  "snd (negotiate_mtu_body env conn h) \<noteq> None \<Longrightarrow>
   mtu (fst (fst (negotiate_mtu_body env conn h))) = mtu h"
  by (auto simp add: negotiate_mtu_body_def mtu_deliver Let_def
      split: prod.splits option.splits sum.splits)

lemma mtu_UART_register: "mtu (UART_register h a b c) = mtu h"
  by (simp add: UART_register_def Let_def split: option.splits)

lemma mtu_after_poll: "mtu (fst (snd (poll env debug line idxs h))) = mtu h"
proof (induction idxs arbitrary: h)
  case Nil
  show ?case by simp
next
  case (Cons i rest)
  show ?case
    using Cons.IH [of "deliver (sleep_effect env 1000) h"]
    by (cases debug; cases "print_log_raises env h")
       (simp_all add: Let_def mtu_deliver split_beta)
qed

lemma mtu_UART_scanning: "mtu (fst (snd (UART_scanning env self nm))) = mtu (ble_handler self)"
  by (simp add: UART_scanning_def Let_def mtu_deliver split: option.splits)

lemma mtu_UART_waited:
  "mtu (fst (snd (UART_waited env self nm T dbg))) = mtu (ble_handler self)"
proof -
  obtain x h evs where s: "UART_scanning env self nm = (x, h, evs)"
    by (cases "UART_scanning env self nm")
  have h: "mtu h = mtu (ble_handler self)"
    using mtu_UART_scanning [of env self nm] s by simp
  show ?thesis
    using s h mtu_after_poll [of env dbg "UART_progress nm T" "py_range T" h]
    by (simp add: UART_waited_def split_beta split: option.splits)
qed

lemma UART_waited_flag:
  "UART_waited env (self\<lparr>is_connecting := b\<rparr>) nm T dbg = UART_waited env self nm T dbg"
  by (simp add: UART_waited_def UART_scanning_def)

section \<open>\<open>connect\<close>\<close>

text \<open>
  C3 says that \<open>connect\<close> with timeout \<open>T \<ge> 1\<close>, when nothing is found, makes exactly
  \<open>T\<close> ticks, returns the all-absent result and leaves the discovery mode
  \<open>CONNECTING_NONE\<close>. On an orchestrator whose context is an instance of the source's
  \<open>ConnectionContext\<close> the code does not do that: \<open>_connection.reset()\<close> raises
  \<open>AttributeError\<close>, because \<open>reset\<close> is written outside the class. With timeout 3 and
  nothing to find, both managers' \<open>connect\<close> end with that exception before \<open>scan()\<close> and
  before the first tick (no event at all), and the discovery session is still active.
\<close>

theorem connect_raises_before_first_tick:
  "fst (UART_connect quiet_env source_manager ''robot'' None None None 3 False)
     = Inl (AttributeError ''reset'')
   \<and> snd (snd (UART_connect quiet_env source_manager ''robot'' None None None 3 False)) = []
   \<and> mode (discovery (ble_handler (fst (snd
        (UART_connect quiet_env source_manager ''robot'' None None None 3 False)))))
       \<noteq> CONNECTING_NONE
   \<and> fst (LEGO_connect quiet_env source_manager 3 False) = Inl (AttributeError ''reset'')
   \<and> snd (snd (LEGO_connect quiet_env source_manager 3 False)) = []
   \<and> mode (discovery (ble_handler (fst (snd (LEGO_connect quiet_env source_manager 3 False)))))
       \<noteq> CONNECTING_NONE"
  by (simp add: UART_connect_def UART_attempt_def UART_waited_def UART_scanning_def
      LEGO_connect_def LEGO_waited_def LEGO_scanning_def bound_method_def
      source_manager_def ConnectionContext_class_def Let_def
      start_uart_discovery_def start_lego_discovery_def
      CONNECTING_NONE_def CONNECTING_UART_def CONNECTING_LEGO_def)

text \<open>
  C7. When \<open>connect\<close> reaches its success path (the wait ended without an exception and
  \<open>_connection.is_uart_ready()\<close> returned true), it returns the connection handle and the
  rx and tx handles of the context, whatever the primitives of the MTU negotiation do:
  an exception they raise never leaves \<open>connect\<close>, which goes on to stop discovery and to
  clear its connecting flag. When the negotiation raised, the handler's \<open>mtu\<close> is the one
  it had before the call.
\<close>

theorem mtu_failure_is_swallowed:
  "(let wait = UART_waited env self nm T dbg;
        w = fst (snd wait);
        g = UART_register w cb_n cb_d cb_w;
        r = UART_connect env self nm cb_d cb_n cb_w T dbg;
        c = connection (ble_handler (fst (snd r)))
    in fst wait = None
       \<and> bound_method (connection_class w) ''is_uart_ready'' = None
       \<and> is_uart_ready (connection w) \<longrightarrow>
         fst r = Inr (conn_handle c, uart_rx_handle c, uart_tx_handle c)
       \<and> \<not> is_connecting (fst (snd r))
       \<and> mode (discovery (ble_handler (fst (snd r)))) = CONNECTING_NONE
       \<and> (snd (negotiate_mtu_body env (conn_handle (connection g)) g) \<noteq> None \<longrightarrow>
            mtu (ble_handler (fst (snd r))) = mtu (ble_handler self)))"
proof -
  obtain x w evs where p: "UART_waited env self nm T dbg = (x, w, evs)"
    by (cases "UART_waited env self nm T dbg")
  let ?g = "UART_register w cb_n cb_d cb_w"
  obtain h6 evs' y where n: "negotiate_mtu env ?g = ((h6, evs'), y)"
    by (cases "negotiate_mtu env ?g") auto
  have y: "y = None"
    using negotiate_mtu_swallows [of env ?g] n by simp
  have "h6 = fst (fst (negotiate_mtu env ?g))"
    by (simp add: n)
  then have h6: "h6 = fst (fst (negotiate_mtu_body env (conn_handle (connection ?g)) ?g))"
    by (simp only: negotiate_mtu_state)
  have w_mtu: "mtu w = mtu (ble_handler self)"
    using mtu_UART_waited [of env self nm T dbg] p by simp
  have kept: "mtu h6 = mtu (ble_handler self)"
    if "snd (negotiate_mtu_body env (conn_handle (connection ?g)) ?g) \<noteq> None"
    using negotiate_mtu_body_failed_mtu [OF that] h6 w_mtu by (simp add: mtu_UART_register)
  show ?thesis
    using p n y kept
    by (simp add: UART_connect_def UART_attempt_def UART_waited_flag Let_def stop_discovery_def)
qed

text \<open>In \<open>robot_env\<close> the MTU exchange raises \<open>OSError 22\<close>; the default MTU 20 stays.\<close>

theorem mtu_failure_is_swallowed_witness:
  "fst (UART_connect robot_env manager_example ''robot'' None (Some ''n'') None 5 False)
     = Inr (Some 3, Some 12, Some 14)
   \<and> mtu (ble_handler (fst (snd
       (UART_connect robot_env manager_example ''robot'' None (Some ''n'') None 5 False)))) = 20
   \<and> snd (negotiate_mtu_body robot_env (Some 3)
       (UART_register (fst (snd (UART_waited robot_env manager_example ''robot'' 5 False)))
          (Some ''n'') None None)) = Some (OSError 22)"
proof -
  note ev =
        UART_connect_def UART_attempt_def UART_waited_def UART_scanning_def UART_register_def
        UART_progress_def bound_method_def class_with_methods_def ConnectionContext_class_def
        negotiate_mtu_def negotiate_mtu_body_def try_except_pass_def deliver_def py_range_def
        start_uart_discovery_def stop_discovery_def reset_def set_connection_info_def
        set_uart_handles_def is_uart_ready_def py_bytes_def CallbackRegistry_on_notify_def
        CONNECTING_NONE_def CONNECTING_UART_def STATE_IDLE_def
        quiet_env_def robot_env_def manager_example_def scenario_memory_def
        DiscoveryManager_init_def ConnectionContext_init_def
  have path: "fst (UART_waited robot_env manager_example ''robot'' 5 False) = None
      \<and> bound_method (connection_class
            (fst (snd (UART_waited robot_env manager_example ''robot'' 5 False))))
          ''is_uart_ready'' = None
      \<and> is_uart_ready (connection
            (fst (snd (UART_waited robot_env manager_example ''robot'' 5 False))))"
    by (simp add: ev Let_def upt_rec)
  have failed: "snd (negotiate_mtu_body robot_env
       (conn_handle (connection (UART_register
          (fst (snd (UART_waited robot_env manager_example ''robot'' 5 False)))
          (Some ''n'') None None)))
       (UART_register (fst (snd (UART_waited robot_env manager_example ''robot'' 5 False)))
          (Some ''n'') None None)) \<noteq> None"
    by (simp add: negotiate_mtu_body_def robot_env_def quiet_env_def split: prod.splits)
  note inst = mtu_failure_is_swallowed [where env = robot_env and self = manager_example
      and nm = "''robot''" and cb_d = None and cb_n = "Some ''n''" and cb_w = None and T = 5
      and dbg = False, unfolded Let_def, THEN mp, OF path]
  have a: "fst (UART_connect robot_env manager_example ''robot'' None (Some ''n'') None 5 False)
     = Inr (Some 3, Some 12, Some 14)"
    using inst [THEN conjunct1] by (simp add: ev Let_def upt_rec)
  have b: "mtu (ble_handler (fst (snd
       (UART_connect robot_env manager_example ''robot'' None (Some ''n'') None 5 False)))) = 20"
    using inst [THEN conjunct2, THEN conjunct2, THEN conjunct2, THEN mp, OF failed]
    by (simp add: manager_example_def)
  have c: "snd (negotiate_mtu_body robot_env (Some 3)
       (UART_register (fst (snd (UART_waited robot_env manager_example ''robot'' 5 False)))
          (Some ''n'') None None)) = Some (OSError 22)"
    by (simp add: negotiate_mtu_body_def robot_env_def quiet_env_def split: prod.splits)
  show ?thesis using a b c by simp
qed

text \<open>
  C9 says that every call of \<open>connect\<close> ends with discovery stopped and the connecting
  flag cleared. The code stops discovery and clears the flag in its last statements
  only, with no \<open>try\<close> around what comes before. On an orchestrator whose context is an
  instance of the source's \<open>ConnectionContext\<close>, \<open>_connection.reset()\<close> raises
  \<open>AttributeError\<close>, so both managers' \<open>connect\<close> end there: the connecting flag is still
  set and the discovery session is still active, in the mode the call started.
\<close>

theorem connect_leaves_discovery_running:
  "fst (UART_connect robot_env source_manager ''robot'' None None None 10 False)
     = Inl (AttributeError ''reset'')
   \<and> is_connecting (fst (snd
        (UART_connect robot_env source_manager ''robot'' None None None 10 False)))
   \<and> mode (discovery (ble_handler (fst (snd
        (UART_connect robot_env source_manager ''robot'' None None None 10 False)))))
       = CONNECTING_UART
   \<and> is_discovering (discovery (ble_handler (fst (snd
        (UART_connect robot_env source_manager ''robot'' None None None 10 False)))))
   \<and> fst (LEGO_connect hub42_env source_manager 10 False) = Inl (AttributeError ''reset'')
   \<and> is_connecting (fst (snd (LEGO_connect hub42_env source_manager 10 False)))
   \<and> mode (discovery (ble_handler (fst (snd (LEGO_connect hub42_env source_manager 10 False)))))
       = CONNECTING_LEGO
   \<and> is_discovering (discovery (ble_handler (fst (snd
        (LEGO_connect hub42_env source_manager 10 False)))))"
  by (simp add: UART_connect_def UART_attempt_def UART_waited_def UART_scanning_def
      LEGO_connect_def LEGO_waited_def LEGO_scanning_def bound_method_def
      source_manager_def ConnectionContext_class_def Let_def
      start_uart_discovery_def start_lego_discovery_def DiscoveryManager_init_def
      is_discovering_def CONNECTING_NONE_def CONNECTING_UART_def CONNECTING_LEGO_def)

section \<open>\<open>disconnect\<close>\<close>

text \<open>
  C8 says that \<open>disconnect\<close> with a handle always clears the registry for that handle
  and then narrows the context by \<open>clear_connection()\<close>. On an orchestrator whose
  context is an instance of the source's \<open>ConnectionContext\<close> the code does the first
  only: \<open>_connection.clear_connection()\<close> raises \<open>AttributeError\<close>, because
  \<open>clear_connection\<close> is written outside the class. With handle 1 and a teardown that
  succeeds, both managers' \<open>disconnect\<close> end with that exception, the registry cleared for
  handle 1, the context still holding handle 1 in state \<open>STATE_CONNECTED\<close>.
\<close>

theorem disconnect_raises_before_narrowing:
  "cr_notify_callbacks (callbacks (ble_handler source_connected)) (Some 1)
     = Some (Some ''notify'')
   \<and> snd (UART_disconnect quiet_env source_connected (Some 1))
     = Some (AttributeError ''clear_connection'')
   \<and> callbacks (ble_handler (fst (UART_disconnect quiet_env source_connected (Some 1))))
     = CallbackRegistry_clear_connection (callbacks (ble_handler source_connected)) (Some 1)
   \<and> cr_notify_callbacks
        (callbacks (ble_handler (fst (UART_disconnect quiet_env source_connected (Some 1)))))
        (Some 1) = None
   \<and> conn_handle (connection (ble_handler
        (fst (UART_disconnect quiet_env source_connected (Some 1))))) = Some 1
   \<and> state (connection (ble_handler
        (fst (UART_disconnect quiet_env source_connected (Some 1))))) = STATE_CONNECTED
   \<and> snd (LEGO_disconnect quiet_env source_connected (Some 1))
     = Some (AttributeError ''clear_connection'')
   \<and> callbacks (ble_handler (fst (LEGO_disconnect quiet_env source_connected (Some 1))))
     = CallbackRegistry_clear_connection (callbacks (ble_handler source_connected)) (Some 1)
   \<and> conn_handle (connection (ble_handler
        (fst (LEGO_disconnect quiet_env source_connected (Some 1))))) = Some 1
   \<and> state (connection (ble_handler
        (fst (LEGO_disconnect quiet_env source_connected (Some 1))))) = STATE_CONNECTED"
  by (simp add: UART_disconnect_def LEGO_disconnect_def try_except_pass_def bound_method_def
      quiet_env_def source_connected_def source_manager_def ConnectionContext_class_def
      registry_example_def CallbackRegistry_init_def CallbackRegistry_on_write_def
      CallbackRegistry_on_disconnect_def CallbackRegistry_on_notify_def
      CallbackRegistry_on_write_done_def
      CallbackRegistry_clear_connection_def set_connection_info_def
      ConnectionContext_init_def Let_def)

text \<open>
  C5. \<open>clear_connection\<close> on the context unsets the connection handle and sets the
  state to \<open>STATE_IDLE\<close>; the address, the address type, the advertisement data (type,
  name, services), the discovery handles and the UART and hub attribute handles are as
  before. So after a hub connect that returned a handle and left a non-empty name in
  the context (\<open>Hub42\<close>, say), \<open>disconnect\<close> followed by \<open>get_hub_name\<close> still gives
  that name.
\<close>

theorem clear_connection_context_narrow:
  "conn_handle (clear_connection c) = None
   \<and> state (clear_connection c) = STATE_IDLE
   \<and> addr (clear_connection c) = addr c
   \<and> addr_type (clear_connection c) = addr_type c
   \<and> adv_type (clear_connection c) = adv_type c
   \<and> name (clear_connection c) = name c
   \<and> services (clear_connection c) = services c
   \<and> start_handle (clear_connection c) = start_handle c
   \<and> end_handle (clear_connection c) = end_handle c
   \<and> uart_rx_handle (clear_connection c) = uart_rx_handle c
   \<and> uart_tx_handle (clear_connection c) = uart_tx_handle c
   \<and> lego_value_handle (clear_connection c) = lego_value_handle c
   \<and> (fst (LEGO_connect env self T dbg) = Inr (Some conn)
        \<and> name (connection (ble_handler (fst (snd (LEGO_connect env self T dbg))))) = Some n
        \<and> n \<noteq> []
      \<longrightarrow> get_hub_name
            (fst (LEGO_disconnect env (fst (snd (LEGO_connect env self T dbg))) (Some conn))) arg
          = Some n)"
  by (simp add: clear_connection_def get_hub_name_def LEGO_disconnect_def try_except_pass_def
      Let_def split: option.splits)

text \<open>Scenario E of the specification, in \<open>hub42_env\<close> (whose link teardown raises).\<close>

theorem clear_connection_context_narrow_witness:
  "fst (LEGO_connect hub42_env manager_example 3 False) = Inr (Some 5)
   \<and> name (connection (ble_handler (fst (snd (LEGO_connect hub42_env manager_example 3 False)))))
       = Some ''Hub42''
   \<and> get_hub_name
        (fst (LEGO_disconnect hub42_env (fst (snd (LEGO_connect hub42_env manager_example 3 False)))
               (Some 5))) None
       = Some ''Hub42''
   \<and> conn_handle (connection (ble_handler
        (fst (LEGO_disconnect hub42_env (fst (snd (LEGO_connect hub42_env manager_example 3 False)))
               (Some 5))))) = None"
proof -
  note ev =
        LEGO_connect_def LEGO_waited_def LEGO_scanning_def LEGO_progress_def truthy_def
        bound_method_def class_with_methods_def ConnectionContext_class_def
        deliver_def py_range_def
        start_lego_discovery_def stop_discovery_def reset_def set_connection_info_def
        set_lego_handle_def set_discovery_data_def is_lego_ready_def py_bytes_def
        CONNECTING_NONE_def CONNECTING_LEGO_def STATE_IDLE_def
        quiet_env_def hub42_env_def manager_example_def scenario_memory_def
        DiscoveryManager_init_def ConnectionContext_init_def
  have connected:
    "fst (LEGO_connect hub42_env manager_example 3 False) = Inr (Some 5)
     \<and> name (connection (ble_handler (fst (snd (LEGO_connect hub42_env manager_example 3 False)))))
         = Some ''Hub42''
     \<and> ''Hub42'' \<noteq> []"
    by (simp add: ev Let_def upt_rec)
  have named: "get_hub_name
        (fst (LEGO_disconnect hub42_env (fst (snd (LEGO_connect hub42_env manager_example 3 False)))
               (Some 5))) None
       = Some ''Hub42''"
    using clear_connection_context_narrow [where env = hub42_env and self = manager_example
        and T = 3 and dbg = False and conn = 5 and n = "''Hub42''" and arg = None]
      connected
    by blast
  have cleared: "conn_handle (connection (ble_handler
        (fst (LEGO_disconnect hub42_env (fst (snd (LEGO_connect hub42_env manager_example 3 False)))
               (Some 5))))) = None"
    by (simp add: ev LEGO_disconnect_def try_except_pass_def Let_def clear_connection_def upt_rec)
  show ?thesis
    using connected named cleared by simp
qed

end
